theory Spec2Isabelle
  imports Complex_Main "HOL-Library.Word"
begin

section \<open>Geocoding matrices of \<open>SBAS_geocode.py\<close>\<close>

text \<open>
  The module builds two index matrices between the radar raster (axes \<open>y\<close>, \<open>x\<close>) and
  the geographic raster (axes \<open>lat\<close>, \<open>lon\<close>) and gathers data grids through them.
  Rasters are modelled flattened in row-major order, as \<open>reshape(-1)\<close> reads them.

  Numbers. The index matrices are \<open>np.uint32\<close>: they are 32-bit words, whose
  arithmetic wraps around. Coordinates are \<open>float64\<close> in the source; the model reads
  a finite coordinate as the rational number it denotes and computes with exact
  arithmetic, so the rounding error of a floating-point subtraction or division is
  outside the model. A value that is not finite (NaN, or the result of a division
  by zero) is \<open>None\<close>: every comparison the source makes on such a value is false
  (or, for an infinity, false for one of the two bounds), so the source treats all
  of them alike.
\<close>

subsection \<open>Data\<close>

type_synonym u32 = "32 word"

type_synonym float = "rat option"

datatype py_error =
    ValueError
  | IndexError
  | NameError string
  | AssertionError string

text \<open>
  Modelled from the spec: \<open>self.noindex\<close> is an attribute of a base class that is
  not part of this module. The spec gives it as the maximum representable unsigned
  value of the index type, which is \<open>uint32\<close>.
\<close>

definition noindex :: u32 where
  "noindex = 4294967295"

text \<open>
  One cell of \<open>trans_dat\<close>: the radar coordinates \<open>azi\<close> and \<open>rng\<close> of a geographic
  cell and its linear index \<open>idx\<close>. The dataset is the list of its cells in the
  order of the geographic raster.
\<close>

record trans_point =
  azi :: float
  rng :: float
  idx :: u32

text \<open>
  The chunk partition of a two-dimensional array, as its \<open>chunks\<close> attribute gives
  it: one tuple of chunk lengths per axis.
\<close>

type_synonym chunks = "nat list \<times> nat list"

text \<open>
  The radar grid \<open>intf_grid\<close>. The matrix builders read its coordinate vectors
  \<open>y\<close> and \<open>x\<close> and its \<open>chunks\<close> attribute (\<open>None\<close> when the grid is not backed by
  a chunked array); they never read its values.
\<close>

record radar_grid =
  ys :: "rat list"
  xs :: "rat list"
  grid_chunks :: "chunks option"

subsection \<open>Coordinate helpers\<close>

text \<open>\<open>intf_grid.y.min()\<close>: the reduction raises \<open>ValueError\<close> on an empty vector.\<close>

fun coord_min :: "rat list \<Rightarrow> py_error + rat" where
  "coord_min [] = Inl ValueError"
| "coord_min (v # vs) = Inr (fold min vs v)"

text \<open>
  \<open>intf_grid.y.diff('y')[0]\<close>: the first difference; with fewer than two
  coordinates the difference vector is empty and the subscript raises \<open>IndexError\<close>.
\<close>

fun coord_diff0 :: "rat list \<Rightarrow> py_error + rat" where
  "coord_diff0 (a # b # vs) = Inr (b - a)"
| "coord_diff0 vs = Inl IndexError"

text \<open>\<open>round()\<close> of NumPy rounds a half to the even neighbour.\<close>

definition np_round :: "rat \<Rightarrow> int" where
  "np_round q =
     (let f = \<lfloor>q\<rfloor>; d = q - of_int f
      in if d < 1 / 2 then f
         else if 1 / 2 < d then f + 1
         else if even f then f else f + 1)"

text \<open>
  \<open>((c - cmin) / d).round()\<close> for one coordinate \<open>c\<close> of the transform dataset.
  A NaN coordinate stays NaN; a zero cell size gives NaN or an infinity.
\<close>

definition rounded_index :: "float \<Rightarrow> rat \<Rightarrow> rat \<Rightarrow> int option" where
  "rounded_index c cmin d =
     (case c of
        None \<Rightarrow> None
      | Some v \<Rightarrow> if d = 0 then None else Some (np_round ((v - cmin) / d)))"

subsection \<open>\<open>intf_ra2ll_matrix\<close>\<close>

text \<open>
  \<open>xr.where((t >= 0) & (t < size), t.astype(np.uint32), self.noindex)\<close> for one
  cell. The conversion to \<open>uint32\<close> is exact below \<open>2 ^ 32\<close>.
\<close>

definition where_index :: "nat \<Rightarrow> int option \<Rightarrow> u32" where
  "where_index n t =
     (case t of
        None \<Rightarrow> noindex
      | Some i \<Rightarrow> if 0 \<le> i \<and> i < int n then word_of_int i else noindex)"

text \<open>
  \<open>xr.where((yidx == noindex) | (xidx == noindex), noindex, yidx * x.size + xidx)\<close>
  for one cell. The product and the sum are \<open>uint32\<close> operations.
\<close>

definition matrix_cell :: "nat \<Rightarrow> u32 \<Rightarrow> u32 \<Rightarrow> u32" where
  "matrix_cell width yidx xidx =
     (if yidx = noindex \<or> xidx = noindex then noindex
      else yidx * of_nat width + xidx)"

text \<open>
  The matrix \<open>matrix_ll\<close> of \<open>intf_ra2ll_matrix\<close>, one value per cell of the
  transform dataset. The four coordinate reductions run in the order of the source
  (lines 32 and 36) and the first one that raises ends the call.
\<close>

definition ra2ll_cell :: "radar_grid \<Rightarrow> rat \<Rightarrow> rat \<Rightarrow> rat \<Rightarrow> rat \<Rightarrow> trans_point \<Rightarrow> u32" where
  "ra2ll_cell g ymin dy xmin dx p =
     matrix_cell (length (xs g))
       (where_index (length (ys g)) (rounded_index (azi p) ymin dy))
       (where_index (length (xs g)) (rounded_index (rng p) xmin dx))"

definition matrix_ll :: "radar_grid \<Rightarrow> trans_point list \<Rightarrow> py_error + u32 list" where
  "matrix_ll g td =
     (case coord_min (ys g) of Inl e \<Rightarrow> Inl e | Inr ymin \<Rightarrow>
      case coord_diff0 (ys g) of Inl e \<Rightarrow> Inl e | Inr dy \<Rightarrow>
      case coord_min (xs g) of Inl e \<Rightarrow> Inl e | Inr xmin \<Rightarrow>
      case coord_diff0 (xs g) of Inl e \<Rightarrow> Inl e | Inr dx \<Rightarrow>
        Inr (map (ra2ll_cell g ymin dy xmin dx) td))"


subsection \<open>Storage and the two return shapes\<close>

text \<open>
  The artifacts on disk and what the builders do to them. \<open>os.remove\<close> deletes an
  artifact; \<open>to_netcdf(filename, compute=False)\<close> creates the artifact and returns
  the handler of the delayed write.
\<close>

datatype fs_event = Remove string | ToNetcdf string

record storage =
  files :: "string list"
  events :: "fs_event list"

definition os_remove :: "string \<Rightarrow> storage \<Rightarrow> storage" where
  "os_remove f st = st\<lparr>files := removeAll f (files st), events := events st @ [Remove f]\<rparr>"

definition to_netcdf :: "string \<Rightarrow> storage \<Rightarrow> storage" where
  "to_netcdf f st = st\<lparr>files := f # files st, events := events st @ [ToNetcdf f]\<rparr>"

text \<open>
  A builder returns the matrix itself, not yet materialized, when \<open>interactive\<close> is
  set, and the handler of the delayed write otherwise.
\<close>

datatype 'm built = Lazy 'm | Handler string 'm

fun built_matrix :: "'m built \<Rightarrow> 'm" where
  "built_matrix (Lazy m) = m"
| "built_matrix (Handler f m) = m"

text \<open>
  Lines 44 to 58 and 204 to 217, the same in both builders: \<open>filename\<close> is what
  \<open>self.get_filenames\<close> gives for the matrix name.
\<close>

definition return_or_save :: "string \<Rightarrow> bool \<Rightarrow> 'm \<Rightarrow> storage \<Rightarrow> 'm built \<times> storage" where
  "return_or_save filename interactive m st =
     (if interactive then (Lazy m, st)
      else let st1 = (if filename \<in> set (files st) then os_remove filename st else st)
           in (Handler filename m, to_netcdf filename st1))"

definition intf_ra2ll_matrix ::
  "string \<Rightarrow> radar_grid \<Rightarrow> trans_point list \<Rightarrow> bool \<Rightarrow> storage
     \<Rightarrow> (py_error + u32 list built) \<times> storage" where
  "intf_ra2ll_matrix filename g td interactive st =
     (case matrix_ll g td of
        Inl e \<Rightarrow> (Inl e, st)
      | Inr m \<Rightarrow> (case return_or_save filename interactive m st of (r, st') \<Rightarrow> (Inr r, st')))"

subsection \<open>\<open>intf_ra2ll\<close> and \<open>intf_ll2ra\<close>: the gathers\<close>

text \<open>
  \<open>flat[index]\<close> with an integer index array: NumPy raises \<open>IndexError\<close> when any
  index is out of bounds. The indices are unsigned here, so none counts from the end.
\<close>

definition fancy_index :: "'a list \<Rightarrow> nat list \<Rightarrow> py_error + 'a list" where
  "fancy_index flat index =
     (if list_all (\<lambda>i. i < length flat) index then Inr (map (\<lambda>i. flat ! i) index)
      else Inl IndexError)"

text \<open>
  The inner function \<open>ra2ll\<close> of \<open>intf_ra2ll\<close> on one layer: \<open>grid\<close> is the layer
  flattened, \<open>matrix_ra2ll\<close> the persisted matrix flattened. A grid value is a
  \<open>float\<close>; \<open>None\<close> is \<open>np.nan\<close>, the missing-value marker.
\<close>

definition ra2ll :: "u32 list \<Rightarrow> float list \<Rightarrow> py_error + float list" where
  "ra2ll matrix_ra2ll grid =
     (let valid_index = map (\<lambda>m. if m \<noteq> noindex then m else 0) matrix_ra2ll
      in case fancy_index grid (map unat valid_index) of
           Inl e \<Rightarrow> Inl e
         | Inr gathered \<Rightarrow>
             Inr (map (\<lambda>(m, v). if m \<noteq> noindex then v else None) (zip matrix_ra2ll gathered)))"

text \<open>The inner function \<open>ll2ra\<close> of \<open>intf_ll2ra\<close>: the gather alone.\<close>

definition ll2ra :: "u32 list \<Rightarrow> float list \<Rightarrow> py_error + float list" where
  "ll2ra matrix_ll2ra grid = fancy_index grid (map unat matrix_ll2ra)"

text \<open>
  The helper check that opens both functions (lines 83 and 242):
  \<open>if not a in grids.dims and b in grid.dims\<close>. Python reads it as
  \<open>(not (a in grids.dims)) and (b in grid.dims)\<close>, and evaluates the second operand
  only when the first is true. The second operand names \<open>grid\<close>, not \<open>grids\<close>:
  \<open>grid_binding\<close> is what the name \<open>grid\<close> is bound to where the check runs
  (\<open>None\<close> when it is unbound, and then reading it raises \<open>NameError\<close>).
\<close>

definition helper_check ::
  "string \<Rightarrow> string \<Rightarrow> string list \<Rightarrow> string list option \<Rightarrow> py_error + bool" where
  "helper_check a b grids_dims grid_binding =
     (if a \<in> set grids_dims then Inr False
      else case grid_binding of
             None \<Rightarrow> Inl (NameError ''grid'')
           | Some grid_dims \<Rightarrow> Inr (b \<in> set grid_dims))"

text \<open>
  Neither function nor the module binds a name \<open>grid\<close>: the parameter is \<open>grids\<close>,
  and the \<open>grid\<close> of the inner functions is local to them.
\<close>

definition intf_ra2ll_check :: "string list \<Rightarrow> py_error + bool" where
  "intf_ra2ll_check grids_dims = helper_check ''y'' ''x'' grids_dims None"

definition intf_ll2ra_check :: "string list \<Rightarrow> py_error + bool" where
  "intf_ll2ra_check grids_dims = helper_check ''lat'' ''lon'' grids_dims None"

subsection \<open>\<open>geocode_parallel\<close>: the target grid\<close>

text \<open>
  \<open>open_grids(pairs, 'phasefilt').min('pair').astype(bool)\<close>. The stack is the list
  of its layers, one per pair, each flattened. \<open>min\<close> skips NaN, gives NaN where
  every pair is NaN, and raises \<open>ValueError\<close> on a stack with no pair; \<open>astype(bool)\<close>
  turns zero into \<open>False\<close> and everything else, NaN included, into \<open>True\<close>.
\<close>

fun nanmin :: "float list \<Rightarrow> float" where
  "nanmin [] = None"
| "nanmin (None # vs) = nanmin vs"
| "nanmin (Some v # vs) = (case nanmin vs of None \<Rightarrow> Some v | Some u \<Rightarrow> Some (min v u))"

definition astype_bool :: "float \<Rightarrow> bool" where
  "astype_bool v = (case v of None \<Rightarrow> True | Some q \<Rightarrow> q \<noteq> 0)"

definition cell_over_pairs :: "float list list \<Rightarrow> nat \<Rightarrow> float list" where
  "cell_over_pairs stack k = map (\<lambda>layer. layer ! k) stack"

definition intf_grid_of :: "float list list \<Rightarrow> py_error + bool list" where
  "intf_grid_of stack =
     (case stack of
        [] \<Rightarrow> Inl ValueError
      | layer # _ \<Rightarrow>
          Inr (map (\<lambda>k. astype_bool (nanmin (cell_over_pairs stack k))) [0..<length layer]))"

text \<open>
  The reading of the spec, for comparison: a pair is present at a cell when its value
  there is not missing, and the footprint is the "any pair present" reduction.
\<close>

definition any_pair_present :: "float list list \<Rightarrow> nat \<Rightarrow> bool" where
  "any_pair_present stack k = list_ex (\<lambda>layer. layer ! k \<noteq> None) stack"

subsection \<open>\<open>intf_ll2ra_matrix\<close>\<close>

text \<open>A two-dimensional array: its shape and its values in row-major order.\<close>

record 'a ndarray =
  shape :: "nat \<times> nat"
  flat :: "'a list"

definition size_of :: "'a ndarray \<Rightarrow> nat" where
  "size_of a = fst (shape a) * snd (shape a)"

text \<open>\<open>max()\<close>, as \<open>coord_min\<close>.\<close>

fun coord_max :: "rat list \<Rightarrow> py_error + rat" where
  "coord_max [] = Inl ValueError"
| "coord_max (v # vs) = Inr (fold max vs v)"

text \<open>
  One row of \<open>trans_blocks_extents\<close>: the block's position in the chunk grid of the
  transform dataset (columns 0 and 1) and the bounds of its azimuth (columns 2 and 3)
  and range (columns 4 and 5). A comparison with a NaN bound is false.
\<close>

record block_extent =
  blockRow :: nat
  blockCol :: nat
  azimuthMin :: float
  azimuthMax :: float
  rangeMin :: float
  rangeMax :: float

definition float_ge :: "float \<Rightarrow> rat \<Rightarrow> bool" where
  "float_ge a q = (case a of None \<Rightarrow> False | Some v \<Rightarrow> q \<le> v)"

definition float_le :: "float \<Rightarrow> rat \<Rightarrow> bool" where
  "float_le a q = (case a of None \<Rightarrow> False | Some v \<Rightarrow> v \<le> q)"

text \<open>Lines 155 to 157: \<open>ymask & xmask\<close> for one row of the extents.\<close>

definition block_selected :: "rat \<Rightarrow> rat \<Rightarrow> rat \<Rightarrow> rat \<Rightarrow> block_extent \<Rightarrow> bool" where
  "block_selected ymin ymax xmin xmax b \<longleftrightarrow>
     (float_ge (azimuthMax b) (ymin - 1) \<and> float_le (azimuthMin b) (ymax + 1)) \<and>
     (float_ge (rangeMax b) (xmin - 1) \<and> float_le (rangeMin b) (xmax + 1))"

text \<open>
  The transform dataset by blocks: the cells of block \<open>(iy, ix)\<close>, flattened.
  Lines 163 to 171 collect the selected blocks in the order of the extents; a
  position outside the chunk grid raises \<open>IndexError\<close>.
\<close>

type_synonym trans_blocks = "nat \<times> nat \<Rightarrow> trans_point list option"

fun gather_blocks :: "trans_blocks \<Rightarrow> block_extent list \<Rightarrow> py_error + trans_point list list" where
  "gather_blocks tb [] = Inr []"
| "gather_blocks tb (b # bs) =
     (case tb (blockRow b, blockCol b) of
        None \<Rightarrow> Inl IndexError
      | Some pts \<Rightarrow>
          (case gather_blocks tb bs of Inl e \<Rightarrow> Inl e | Inr rest \<Rightarrow> Inr (pts # rest)))"

text \<open>
  The nearest-neighbour index of SciPy, by its contract. \<open>cKDTree(data)\<close> raises
  \<open>ValueError\<close> when a coordinate is not finite. \<open>query(x, k=1)\<close> gives for each
  target the position of a data point at the least Euclidean distance, and the
  number of data points when there is none. Which of several nearest points it
  gives is not specified; the model takes the first.
\<close>

definition finite_point :: "trans_point \<Rightarrow> (rat \<times> rat) option" where
  "finite_point p =
     (case (azi p, rng p) of (Some a, Some r) \<Rightarrow> Some (a, r) | _ \<Rightarrow> None)"

fun cKDTree :: "trans_point list \<Rightarrow> py_error + (rat \<times> rat) list" where
  "cKDTree [] = Inr []"
| "cKDTree (p # ps) =
     (case finite_point p of
        None \<Rightarrow> Inl ValueError
      | Some yx \<Rightarrow> (case cKDTree ps of Inl e \<Rightarrow> Inl e | Inr t \<Rightarrow> Inr (yx # t)))"

definition sqdist :: "rat \<times> rat \<Rightarrow> rat \<times> rat \<Rightarrow> rat" where
  "sqdist p q = (fst p - fst q) * (fst p - fst q) + (snd p - snd q) * (snd p - snd q)"

definition euclid :: "rat \<times> rat \<Rightarrow> rat \<times> rat \<Rightarrow> real" where
  "euclid p q = sqrt (of_rat (sqdist p q))"

fun first_index :: "('a \<Rightarrow> bool) \<Rightarrow> 'a list \<Rightarrow> nat" where
  "first_index P [] = 0"
| "first_index P (v # vs) = (if P v then 0 else Suc (first_index P vs))"

definition query :: "(rat \<times> rat) list \<Rightarrow> rat \<times> rat \<Rightarrow> nat" where
  "query tree target =
     (case map (sqdist target) tree of
        [] \<Rightarrow> 0
      | d # ds \<Rightarrow> first_index (\<lambda>v. v = fold min ds d) (d # ds))"

text \<open>
  The chunk function \<open>calc_intf_ll2ra_matrix\<close>: \<open>azi_c\<close> and \<open>rng_c\<close> are its
  arguments \<open>azi\<close> and \<open>rng\<close>, the azimuth and range of the cells of one chunk of
  the radar grid.
\<close>

definition calc_intf_ll2ra_matrix ::
  "block_extent list \<Rightarrow> trans_blocks \<Rightarrow> rat ndarray \<Rightarrow> rat ndarray \<Rightarrow> py_error + u32 ndarray" where
  "calc_intf_ll2ra_matrix trans_blocks_extents tb azi_c rng_c =
     (if shape azi_c \<noteq> shape rng_c then Inl (AssertionError ''ERROR: azi.shape != rng.shape'') else
      case coord_min (flat azi_c) of Inl e \<Rightarrow> Inl e | Inr ymin \<Rightarrow>
      case coord_max (flat azi_c) of Inl e \<Rightarrow> Inl e | Inr ymax \<Rightarrow>
      case coord_min (flat rng_c) of Inl e \<Rightarrow> Inl e | Inr xmin \<Rightarrow>
      case coord_max (flat rng_c) of Inl e \<Rightarrow> Inl e | Inr xmax \<Rightarrow>
      case gather_blocks tb (filter (block_selected ymin ymax xmin xmax) trans_blocks_extents) of
        Inl e \<Rightarrow> Inl e
      | Inr blocks \<Rightarrow>
          if length blocks = 0
          then Inr \<lparr>shape = shape azi_c, flat = replicate (size_of azi_c) noindex\<rparr>
          else
            (case cKDTree (concat blocks) of
               Inl e \<Rightarrow> Inl e
             | Inr tree \<Rightarrow>
                 (case fancy_index (map idx (concat blocks))
                         (map (query tree) (zip (flat azi_c) (flat rng_c))) of
                    Inl e \<Rightarrow> Inl e
                  | Inr matrix \<Rightarrow> Inr \<lparr>shape = shape azi_c, flat = matrix\<rparr>)))"

text \<open>
  Chunk partitions. \<open>.chunk(n)\<close> with a positive integer cuts an axis into chunks
  of \<open>n\<close> and a shorter last one; an empty axis has the one chunk of length 0.
  \<open>.chunk(-1)\<close> gives one chunk per axis. \<open>xr.unify_chunks\<close> leaves an array that
  is not chunked as it is and gives the chunked operands their common partition:
  here the two coordinate arrays have one chunk per axis, so the common partition
  is the grid's own.
\<close>

definition regular_chunks :: "nat \<Rightarrow> nat \<Rightarrow> nat list" where
  "regular_chunks n len =
     (if len = 0 then [0]
      else replicate (len div n) n @ (if len mod n = 0 then [] else [len mod n]))"

definition unify_chunks :: "chunks option \<Rightarrow> chunks \<Rightarrow> chunks" where
  "unify_chunks grid single = (case grid of None \<Rightarrow> single | Some c \<Rightarrow> c)"

text \<open>The blocks of the broadcast coordinate arrays \<open>azis\<close> and \<open>rngs\<close>.\<close>

fun split_by :: "nat list \<Rightarrow> 'a list \<Rightarrow> 'a list list" where
  "split_by [] v = []"
| "split_by (n # ns) v = take n v # split_by ns (drop n v)"

definition azis_block :: "rat list \<Rightarrow> rat list \<Rightarrow> rat ndarray" where
  "azis_block yc xc =
     \<lparr>shape = (length yc, length xc), flat = concat (map (\<lambda>y. replicate (length xc) y) yc)\<rparr>"

definition rngs_block :: "rat list \<Rightarrow> rat list \<Rightarrow> rat ndarray" where
  "rngs_block yc xc =
     \<lparr>shape = (length yc, length xc), flat = concat (replicate (length yc) xc)\<rparr>"

text \<open>
  The lazy matrix \<open>matrix_ra\<close>: its chunk partition and, block by block in row-major
  order, what computing the block gives. Nothing of a block runs before the matrix
  is materialized, so an error of \<open>calc_intf_ll2ra_matrix\<close> stays inside the block.
\<close>

record lazy_matrix =
  lazy_chunks :: chunks
  lazy_blocks :: "(py_error + u32 ndarray) list"

text \<open>
  Lines 136 to 203 of \<open>intf_ll2ra_matrix\<close>; \<open>chunksize\<close> is \<open>self.chunksize\<close>, a
  positive integer.
\<close>

definition matrix_ra ::
  "nat \<Rightarrow> block_extent list \<Rightarrow> trans_blocks \<Rightarrow> radar_grid \<Rightarrow> py_error + lazy_matrix" where
  "matrix_ra chunksize trans_blocks_extents tb g =
     (let single = ([length (ys g)], [length (xs g)]);
          unified = unify_chunks (grid_chunks g) single
      in if grid_chunks g \<noteq> Some unified then Inl (AssertionError ''Chunks are not equal'')
         else
           let cy = regular_chunks chunksize (length (ys g));
               cx = regular_chunks chunksize (length (xs g));
               m = \<lparr>lazy_chunks = (cy, cx),
                    lazy_blocks =
                      concat (map (\<lambda>yc. map (\<lambda>xc. calc_intf_ll2ra_matrix trans_blocks_extents tb
                                                       (azis_block yc xc) (rngs_block yc xc))
                                             (split_by cx (xs g)))
                                  (split_by cy (ys g)))\<rparr>
           in if grid_chunks g \<noteq> Some (lazy_chunks m)
              then Inl (AssertionError
                     ''Inverse geocoding matrix chunks are not equal to interferogram chunks'')
              else Inr m)"

definition intf_ll2ra_matrix ::
  "nat \<Rightarrow> string \<Rightarrow> block_extent list \<Rightarrow> trans_blocks \<Rightarrow> radar_grid \<Rightarrow> bool \<Rightarrow> storage
     \<Rightarrow> (py_error + lazy_matrix built) \<times> storage" where
  "intf_ll2ra_matrix chunksize filename trans_blocks_extents tb g interactive st =
     (case matrix_ra chunksize trans_blocks_extents tb g of
        Inl e \<Rightarrow> (Inl e, st)
      | Inr m \<Rightarrow> (case return_or_save filename interactive m st of (r, st') \<Rightarrow> (Inr r, st')))"

subsection \<open>Example data\<close>

text \<open>\<open>np.arange(n)\<close>: the coordinates of a raster of unit cell size with origin 0.\<close>

definition arange :: "nat \<Rightarrow> rat list" where
  "arange n = map of_nat [0..<n]"

text \<open>
  The example of the spec: a radar grid of four by four cells of unit size with
  origin (0, 0), and a transform dataset that holds the four corners, a cell with
  no radar coordinates and a cell outside the grid.
\<close>

definition example_grid :: radar_grid where
  "example_grid = \<lparr>ys = [0, 1, 2, 3], xs = [0, 1, 2, 3], grid_chunks = Some ([2, 2], [2, 2])\<rparr>"

definition example_trans :: "trans_point list" where
  "example_trans =
     [\<lparr>azi = Some 0, rng = Some 0, idx = 0\<rparr>,
      \<lparr>azi = Some 0, rng = Some 3, idx = 1\<rparr>,
      \<lparr>azi = None, rng = None, idx = 2\<rparr>,
      \<lparr>azi = Some 3, rng = Some 0, idx = 3\<rparr>,
      \<lparr>azi = Some (5 / 2), rng = Some (7 / 2), idx = 4\<rparr>,
      \<lparr>azi = Some 3, rng = Some 3, idx = 5\<rparr>]"

text \<open>A radar grid of 65537 rows and 65536 columns, and a point on its last row.\<close>

definition big_grid :: radar_grid where
  "big_grid = \<lparr>ys = arange 65537, xs = arange 65536, grid_chunks = None\<rparr>"

definition big_point :: trans_point where
  "big_point = \<lparr>azi = Some 65536, rng = Some 0, idx = 0\<rparr>"

text \<open>
  The reading of the spec for one cell of the radar-to-geographic matrix, as an
  integer: \<open>ry * width + rx\<close> inside the grid, the sentinel outside.
\<close>

definition spec_ra2ll_cell :: "nat \<Rightarrow> nat \<Rightarrow> int option \<Rightarrow> int option \<Rightarrow> int" where
  "spec_ra2ll_cell height width ry rx =
     (case (ry, rx) of
        (Some r, Some c) \<Rightarrow>
          if 0 \<le> r \<and> r < int height \<and> 0 \<le> c \<and> c < int width then r * int width + c
          else uint noindex
      | _ \<Rightarrow> uint noindex)"

text \<open>
  The reading of the spec for the candidate blocks: a block is a candidate when its
  extent, widened by a margin on every side, overlaps the bounding box of the chunk.
\<close>

definition expand_extent :: "rat \<Rightarrow> block_extent \<Rightarrow> block_extent" where
  "expand_extent margin b =
     b\<lparr>azimuthMin := map_option (\<lambda>v. v - margin) (azimuthMin b),
       azimuthMax := map_option (\<lambda>v. v + margin) (azimuthMax b),
       rangeMin := map_option (\<lambda>v. v - margin) (rangeMin b),
       rangeMax := map_option (\<lambda>v. v + margin) (rangeMax b)\<rparr>"

definition extent_overlaps :: "block_extent \<Rightarrow> rat \<Rightarrow> rat \<Rightarrow> rat \<Rightarrow> rat \<Rightarrow> bool" where
  "extent_overlaps b ymin ymax xmin xmax \<longleftrightarrow>
     float_le (azimuthMin b) ymax \<and> float_ge (azimuthMax b) ymin \<and>
     float_le (rangeMin b) xmax \<and> float_ge (rangeMax b) xmin"

text \<open>
  A layer on the example grid, and a transform dataset of two blocks: the first
  lies over the upper rows of the example grid, the second far below it.
\<close>

definition example_layer :: "float list" where
  "example_layer =
     [Some 10, Some 11, Some 12, Some 13,
      Some 20, None, Some 22, Some 23,
      Some 30, Some 31, Some 32, Some 33,
      Some 40, Some 41, Some 42, Some 43]"

definition example_extents :: "block_extent list" where
  "example_extents =
     [\<lparr>blockRow = 0, blockCol = 0, azimuthMin = Some 0, azimuthMax = Some 1,
       rangeMin = Some 0, rangeMax = Some 3\<rparr>,
      \<lparr>blockRow = 1, blockCol = 0, azimuthMin = Some 50, azimuthMax = Some 60,
       rangeMin = Some 0, rangeMax = Some 3\<rparr>]"

definition example_blocks :: trans_blocks where
  "example_blocks pos =
     (if pos = (0, 0) then
        Some [\<lparr>azi = Some 0, rng = Some 0, idx = 0\<rparr>,
              \<lparr>azi = Some 0, rng = Some 3, idx = 1\<rparr>,
              \<lparr>azi = Some 1, rng = Some 1, idx = 2\<rparr>]
      else if pos = (1, 0) then
        Some [\<lparr>azi = Some 50, rng = Some 0, idx = 3\<rparr>,
              \<lparr>azi = Some 60, rng = Some 3, idx = 4\<rparr>]
      else None)"

text \<open>
  Two chunks of a radar grid: rows 0 and 1, which the first block covers, and rows
  20 and 21, which lie in the gap between the two blocks; columns 0 and 1 in both.
\<close>

definition example_azi :: "rat ndarray" where
  "example_azi = azis_block [0, 1] [0, 1]"

definition example_rng :: "rat ndarray" where
  "example_rng = rngs_block [0, 1] [0, 1]"

definition gap_azi :: "rat ndarray" where
  "gap_azi = azis_block [20, 21] [0, 1]"

definition gap_rng :: "rat ndarray" where
  "gap_rng = rngs_block [20, 21] [0, 1]"

text \<open>
  The example grid held in one chunk of four by four cells, and a stack of two
  pairs over three cells.
\<close>

definition one_chunk_grid :: radar_grid where
  "one_chunk_grid = example_grid\<lparr>grid_chunks := Some ([4], [4])\<rparr>"

definition example_stack :: "float list list" where
  "example_stack = [[None, Some 0, Some 2], [None, Some (3 / 2), Some (- 1)]]"

definition empty_storage :: storage where
  "empty_storage = \<lparr>files = [], events = []\<rparr>"

section \<open>Properties of the radar-to-geographic matrix\<close>

lemma where_index_cases:
  "where_index n t = noindex \<or> (\<exists>i. t = Some i \<and> 0 \<le> i \<and> i < int n \<and> where_index n t = word_of_int i)"
  by (auto simp: where_index_def split: option.splits)

lemma unat_lt_2p32: "unat (w :: u32) < 4294967296"
  using unsigned_less [of w, where ?'a = nat] by simp

lemma uint_word_of_int_u32:
  "0 \<le> k \<Longrightarrow> k < 4294967296 \<Longrightarrow> uint (word_of_int k :: u32) = k"
  by (simp add: uint_word_of_int take_bit_int_eq_self)

lemma unat_word_of_int_u32:
  "0 \<le> k \<Longrightarrow> k < 4294967296 \<Longrightarrow> unat (word_of_int k :: u32) = nat k"
  using uint_word_of_int_u32 [of k] by (simp add: unat_eq_nat_uint)

lemma matrix_cell_valid:
  "matrix_cell w (where_index h ty) (where_index w tx) = noindex
   \<or> unat (matrix_cell w (where_index h ty) (where_index w tx)) < w * h"
proof (cases "w * h < 4294967296")
  case False
  then show ?thesis using unat_lt_2p32 [of "matrix_cell w (where_index h ty) (where_index w tx)"]
    by simp
next
  case True
  show ?thesis
  proof (cases "where_index h ty = noindex \<or> where_index w tx = noindex")
    case True
    then show ?thesis by (simp add: matrix_cell_def)
  next
    case False
    then obtain i j where i: "0 \<le> i" "i < int h" "where_index h ty = word_of_int i"
      and j: "0 \<le> j" "j < int w" "where_index w tx = word_of_int j"
      using where_index_cases [of h ty] where_index_cases [of w tx] by auto
    have "i * int w + j < int w * (i + 1)" using j by (simp add: algebra_simps)
    also have "\<dots> \<le> int w * int h" using i j by (intro mult_left_mono) auto
    finally have lt: "i * int w + j < int (w * h)" by simp
    have nn: "0 \<le> i * int w + j" using i j by simp
    have eq: "matrix_cell w (where_index h ty) (where_index w tx) = word_of_int (i * int w + j)"
      using False i j by (simp add: matrix_cell_def)
    have "i * int w + j < 4294967296"
      using lt \<open>w * h < 4294967296\<close> by linarith
    then have "unat (word_of_int (i * int w + j) :: u32) = nat (i * int w + j)"
      using nn by (rule unat_word_of_int_u32 [rotated])
    then show ?thesis using lt nn by (simp only: eq) linarith
  qed
qed

lemma matrix_ll_InrD:
  "matrix_ll g td = Inr m \<Longrightarrow>
   \<exists>ymin dy xmin dx. coord_min (ys g) = Inr ymin \<and> coord_diff0 (ys g) = Inr dy
      \<and> coord_min (xs g) = Inr xmin \<and> coord_diff0 (xs g) = Inr dx
      \<and> m = map (ra2ll_cell g ymin dy xmin dx) td"
  by (auto simp: matrix_ll_def split: sum.splits)

lemma intf_ra2ll_matrix_Inr:
  "fst (intf_ra2ll_matrix filename g td interactive st) = Inr r \<Longrightarrow>
   matrix_ll g td = Inr (built_matrix r)"
  by (auto simp: intf_ra2ll_matrix_def return_or_save_def Let_def split: sum.splits if_splits)

lemma matrix_ll_valid:
  assumes "matrix_ll g td = Inr m" and "c \<in> set m"
  shows "c = noindex \<or> unat c < length (xs g) * length (ys g)"
proof -
  from assms(1) obtain ymin dy xmin dx where
    m: "m = map (ra2ll_cell g ymin dy xmin dx) td"
    using matrix_ll_InrD by blast
  with assms(2) obtain p where "c = ra2ll_cell g ymin dy xmin dx p"
    by auto
  then show ?thesis using matrix_cell_valid by (simp add: ra2ll_cell_def)
qed

text \<open>
  C7. Every cell of the matrix that \<open>intf_ra2ll_matrix\<close> builds, returned as it is
  or with the handler of its write, holds either the sentinel \<open>noindex\<close> or a flat
  index of the radar grid, that is a value below \<open>width * height\<close>, where \<open>width\<close>
  and \<open>height\<close> are the lengths of the \<open>x\<close> and \<open>y\<close> coordinate vectors.
\<close>

theorem intf_ra2ll_matrix_cells_valid:
  assumes "fst (intf_ra2ll_matrix filename g td interactive st) = Inr r"
    and "c \<in> set (built_matrix r)"
  shows "c = noindex \<or> unat c < length (xs g) * length (ys g)"
  using matrix_ll_valid [OF intf_ra2ll_matrix_Inr [OF assms(1)] assms(2)] .

lemma example_matrix_ll:
  "matrix_ll example_grid example_trans = Inr [0, 3, noindex, 12, noindex, 15]"
  by code_simp

lemma example_intf_ra2ll_matrix:
  "fst (intf_ra2ll_matrix ''intf_ra2ll.grd'' example_grid example_trans True empty_storage)
     = Inr (Lazy [0, 3, noindex, 12, noindex, 15])"
  by (simp add: intf_ra2ll_matrix_def example_matrix_ll return_or_save_def)

theorem intf_ra2ll_matrix_cells_valid_witness:
  "fst (intf_ra2ll_matrix ''intf_ra2ll.grd'' example_grid example_trans True empty_storage)
     = Inr (Lazy [0, 3, noindex, 12, noindex, 15])
   \<and> (12 :: u32) \<in> set (built_matrix (Lazy [0, 3, noindex, 12, noindex, 15]))
   \<and> ((12 :: u32) = noindex \<or> unat (12 :: u32) < length (xs example_grid) * length (ys example_grid))"
proof -
  have mem: "(12 :: u32) \<in> set (built_matrix (Lazy [0, 3, noindex, 12, noindex, 15]))" by simp
  from intf_ra2ll_matrix_cells_valid [OF example_intf_ra2ll_matrix mem] show ?thesis
    using example_intf_ra2ll_matrix mem by simp
qed

subsection \<open>The value of a cell\<close>

lemma length_arange: "length (arange n) = n"
  by (simp add: arange_def)

lemma fold_min_lower: "\<forall>x \<in> set vs. v \<le> x \<Longrightarrow> fold min vs (v :: rat) = v"
  by (induction vs) (auto simp: min_def)

lemma arange_Suc_Suc: "arange (Suc (Suc n)) = 0 # 1 # map of_nat [2..<Suc (Suc n)]"
  by (simp add: arange_def upt_rec [of 0] upt_rec [of "Suc 0"] numeral_2_eq_2 del: upt_Suc)

lemma coord_min_arange: "coord_min (arange (Suc (Suc n))) = Inr 0"
  unfolding arange_Suc_Suc by (simp add: fold_min_lower del: upt_Suc)

lemma coord_diff0_arange: "coord_diff0 (arange (Suc (Suc n))) = Inr 1"
  unfolding arange_Suc_Suc by simp

lemma np_round_of_int: "np_round (of_int k) = k"
  by (simp add: np_round_def)

lemma matrix_cell_in_range:
  assumes "w * h < 4294967296" "0 \<le> r" "r < int h" "0 \<le> c" "c < int w"
  shows "uint (matrix_cell w (where_index h (Some r)) (where_index w (Some c))) = r * int w + c"
proof -
  have "r * int w + c < int w * (r + 1)" using assms by (simp add: algebra_simps)
  also have "\<dots> \<le> int w * int h" using assms by (intro mult_left_mono) auto
  finally have "r * int w + c < int (w * h)" by simp
  then have lt: "r * int w + c < 4294967296" using assms(1) by linarith
  have nn: "0 \<le> r * int w + c" using assms by simp
  have h32: "int h < 4294967296"
  proof -
    have "0 < w" using assms by linarith
    then have "h \<le> w * h" by simp
    then show ?thesis using assms(1) by linarith
  qed
  have w32: "int w < 4294967296"
  proof -
    have "0 < h" using assms by linarith
    then have "w \<le> w * h" by simp
    then show ?thesis using assms(1) by linarith
  qed
  have "uint (word_of_int r :: u32) = r" using assms h32 by (intro uint_word_of_int_u32) auto
  then have ry: "(word_of_int r :: u32) \<noteq> noindex"
    using assms h32 by (auto simp: noindex_def)
  have "uint (word_of_int c :: u32) = c" using assms w32 by (intro uint_word_of_int_u32) auto
  then have rx: "(word_of_int c :: u32) \<noteq> noindex"
    using assms w32 by (auto simp: noindex_def)
  have "matrix_cell w (where_index h (Some r)) (where_index w (Some c)) = word_of_int (r * int w + c)"
    using ry rx assms by (simp add: matrix_cell_def where_index_def)
  then show ?thesis using uint_word_of_int_u32 [OF nn lt] by (simp only:)
qed

lemma matrix_cell_out_of_range:
  assumes "\<not> (\<exists>r c. ty = Some r \<and> tx = Some c \<and> 0 \<le> r \<and> r < int h \<and> 0 \<le> c \<and> c < int w)"
  shows "matrix_cell w (where_index h ty) (where_index w tx) = noindex"
  using assms by (auto simp: matrix_cell_def where_index_def split: option.splits)

text \<open>
  C2, as amended. On a radar grid of fewer than \<open>2 ^ 32\<close> cells, the cell of the
  matrix of \<open>intf_ra2ll_matrix\<close> at the place of a point \<open>p\<close> of the transform
  dataset is \<open>ry * width + rx\<close> when the rounded row \<open>ry\<close> and column \<open>rx\<close> of \<open>p\<close>
  lie inside the grid, and the sentinel otherwise; the matrix has one cell per point.
\<close>

theorem intf_ra2ll_matrix_cell_value:
  assumes "fst (intf_ra2ll_matrix filename g td interactive st) = Inr r"
    and "k < length td"
    and "length (xs g) * length (ys g) < 2 ^ 32"
  shows "\<exists>ymin dy xmin dx.
           coord_min (ys g) = Inr ymin \<and> coord_diff0 (ys g) = Inr dy \<and>
           coord_min (xs g) = Inr xmin \<and> coord_diff0 (xs g) = Inr dx \<and>
           length (built_matrix r) = length td \<and>
           uint (built_matrix r ! k)
             = spec_ra2ll_cell (length (ys g)) (length (xs g))
                 (rounded_index (azi (td ! k)) ymin dy)
                 (rounded_index (rng (td ! k)) xmin dx)"
proof -
  let ?m = "built_matrix r"
  have "matrix_ll g td = Inr ?m" using assms(1) by (rule intf_ra2ll_matrix_Inr)
  then obtain ymin dy xmin dx where
    c: "coord_min (ys g) = Inr ymin" "coord_diff0 (ys g) = Inr dy"
       "coord_min (xs g) = Inr xmin" "coord_diff0 (xs g) = Inr dx"
    and m: "?m = map (ra2ll_cell g ymin dy xmin dx) td"
    using matrix_ll_InrD by blast
  let ?ry = "rounded_index (azi (td ! k)) ymin dy"
  let ?rx = "rounded_index (rng (td ! k)) xmin dx"
  let ?h = "length (ys g)" and ?w = "length (xs g)"
  have mk: "?m ! k = matrix_cell ?w (where_index ?h ?ry) (where_index ?w ?rx)"
    using m assms(2) by (simp add: ra2ll_cell_def)
  have b: "?w * ?h < 4294967296" using assms(3) by simp
  have "uint (?m ! k) = spec_ra2ll_cell ?h ?w ?ry ?rx"
  proof (cases "\<exists>r c. ?ry = Some r \<and> ?rx = Some c \<and> 0 \<le> r \<and> r < int ?h \<and> 0 \<le> c \<and> c < int ?w")
    case True
    then obtain r c where rc: "?ry = Some r" "?rx = Some c" "0 \<le> r" "r < int ?h" "0 \<le> c" "c < int ?w"
      by blast
    then show ?thesis
      using matrix_cell_in_range [OF b rc(3-6)] by (simp add: mk spec_ra2ll_cell_def)
  next
    case False
    then have "?m ! k = noindex" unfolding mk by (rule matrix_cell_out_of_range)
    moreover have "spec_ra2ll_cell ?h ?w ?ry ?rx = uint noindex"
      using False by (auto simp: spec_ra2ll_cell_def split: option.splits)
    ultimately show ?thesis by simp
  qed
  moreover have "length ?m = length td" by (simp add: m)
  ultimately show ?thesis using c by simp
qed

theorem intf_ra2ll_matrix_cell_value_witness:
  "fst (intf_ra2ll_matrix ''intf_ra2ll.grd'' example_grid example_trans True empty_storage)
     = Inr (Lazy [0, 3, noindex, 12, noindex, 15])
   \<and> 3 < length example_trans
   \<and> length (xs example_grid) * length (ys example_grid) < 2 ^ 32
   \<and> uint (built_matrix (Lazy [0, 3, noindex, 12, noindex, 15 :: u32]) ! 3)
       = spec_ra2ll_cell (length (ys example_grid)) (length (xs example_grid))
           (rounded_index (azi (example_trans ! 3)) 0 1)
           (rounded_index (rng (example_trans ! 3)) 0 1)"
proof -
  have k: "3 < length example_trans" by (simp add: example_trans_def)
  have b: "length (xs example_grid) * length (ys example_grid) < 2 ^ 32"
    by (simp add: example_grid_def)
  from intf_ra2ll_matrix_cell_value [OF example_intf_ra2ll_matrix k b]
  obtain ymin dy xmin dx where
    c: "coord_min (ys example_grid) = Inr ymin" "coord_diff0 (ys example_grid) = Inr dy"
       "coord_min (xs example_grid) = Inr xmin" "coord_diff0 (xs example_grid) = Inr dx"
    and v: "uint (built_matrix (Lazy [0, 3, noindex, 12, noindex, 15 :: u32]) ! 3)
       = spec_ra2ll_cell (length (ys example_grid)) (length (xs example_grid))
           (rounded_index (azi (example_trans ! 3)) ymin dy)
           (rounded_index (rng (example_trans ! 3)) xmin dx)"
    by blast
  have "ymin = 0" "dy = 1" "xmin = 0" "dx = 1"
    using c by (simp_all add: example_grid_def)
  with v show ?thesis using example_intf_ra2ll_matrix k b by simp
qed

text \<open>
  The claim as the spec states it, for every grid, fails where the flat index does
  not fit 32 bits: on the grid of 65537 rows and 65536 columns the point of row
  65536 and column 0 lies inside the grid, the spec gives its cell as
  \<open>65536 * 65536 + 0 = 4294967296\<close>, and the matrix holds 0.
\<close>

theorem intf_ra2ll_matrix_cell_value_counterexample:
  "fst (intf_ra2ll_matrix ''intf_ra2ll.grd'' big_grid [big_point] True empty_storage)
     = Inr (Lazy [0])
   \<and> coord_min (ys big_grid) = Inr 0 \<and> coord_diff0 (ys big_grid) = Inr 1
   \<and> coord_min (xs big_grid) = Inr 0 \<and> coord_diff0 (xs big_grid) = Inr 1
   \<and> spec_ra2ll_cell (length (ys big_grid)) (length (xs big_grid))
        (rounded_index (azi big_point) 0 1) (rounded_index (rng big_point) 0 1) = 4294967296
   \<and> uint (built_matrix (Lazy [0 :: u32]) ! 0) \<noteq> 4294967296"
proof -
  have a: "arange 65537 = arange (Suc (Suc 65535))" "arange 65536 = arange (Suc (Suc 65534))"
    by simp_all
  have c: "coord_min (arange 65537) = Inr 0" "coord_diff0 (arange 65537) = Inr 1"
       "coord_min (arange 65536) = Inr 0" "coord_diff0 (arange 65536) = Inr 1"
    unfolding a by (rule coord_min_arange coord_diff0_arange)+
  have r: "np_round 65536 = 65536" "np_round 0 = 0"
    using np_round_of_int [of 65536] np_round_of_int [of 0] by simp_all
  have m: "matrix_ll big_grid [big_point] = Inr [0]"
    using c r
    by (simp add: matrix_ll_def big_grid_def big_point_def ra2ll_cell_def length_arange
        rounded_index_def where_index_def matrix_cell_def noindex_def)
  have t: "fst (intf_ra2ll_matrix ''intf_ra2ll.grd'' big_grid [big_point] True empty_storage)
     = Inr (Lazy [0])"
    by (simp add: intf_ra2ll_matrix_def m return_or_save_def)
  have s: "spec_ra2ll_cell (length (ys big_grid)) (length (xs big_grid))
        (rounded_index (azi big_point) 0 1) (rounded_index (rng big_point) 0 1) = 4294967296"
    using r by (simp add: spec_ra2ll_cell_def big_grid_def big_point_def length_arange
        rounded_index_def)
  show ?thesis using t s c by (simp add: big_grid_def)
qed

section \<open>Properties of the gathers\<close>

lemma fancy_index_in_bounds:
  "\<forall>i \<in> set index. i < length vals \<Longrightarrow> fancy_index vals index = Inr (map ((!) vals) index)"
  by (simp add: fancy_index_def list_all_iff)

lemma fancy_index_out_of_bounds:
  "i \<in> set index \<Longrightarrow> length vals \<le> i \<Longrightarrow> fancy_index vals index = Inl IndexError"
  unfolding fancy_index_def list_all_iff by (meson leD)

lemma map_zip_map:
  "map (\<lambda>(m, v). f m v) (zip ms (map g ms)) = map (\<lambda>m. f m (g m)) ms"
  by (induction ms) auto

lemma ra2ll_valid:
  assumes "\<forall>c \<in> set matrix_ra2ll. c = noindex \<or> unat c < length grid" and "grid \<noteq> []"
  shows "ra2ll matrix_ra2ll grid
           = Inr (map (\<lambda>c. if c = noindex then None else grid ! unat c) matrix_ra2ll)"
proof -
  let ?valid = "map (\<lambda>m. if m \<noteq> noindex then m else 0) matrix_ra2ll"
  have "\<forall>i \<in> set (map unat ?valid). i < length grid"
    using assms by auto
  then have "fancy_index grid (map unat ?valid) = Inr (map ((!) grid) (map unat ?valid))"
    by (rule fancy_index_in_bounds)
  then have "ra2ll matrix_ra2ll grid
      = Inr (map (\<lambda>(m, v). if m \<noteq> noindex then v else None)
               (zip matrix_ra2ll
                  (map (\<lambda>m. grid ! unat (if m \<noteq> noindex then m else 0)) matrix_ra2ll)))"
    by (simp add: ra2ll_def comp_def)
  also have "\<dots> = Inr (map (\<lambda>c. if c = noindex then None else grid ! unat c) matrix_ra2ll)"
    by (simp add: map_zip_map)
  finally show ?thesis .
qed

text \<open>
  C3. Let the matrix hold, in every cell, the sentinel or a flat index of the input
  grid, as the radar-to-geographic matrix of that grid does, and let the grid have
  at least one cell. Then \<open>ra2ll\<close> returns, cell by cell, the missing-value marker
  where the matrix holds the sentinel and the value of the flattened grid at the
  index of the matrix elsewhere. On the grid of the same size that holds 1
  everywhere it returns 1 where the matrix is not the sentinel and the marker
  elsewhere.
\<close>

theorem ra2ll_gathers:
  assumes "\<forall>c \<in> set matrix_ra2ll. c = noindex \<or> unat c < length grid" and "grid \<noteq> []"
  shows "ra2ll matrix_ra2ll grid
           = Inr (map (\<lambda>c. if c = noindex then None else grid ! unat c) matrix_ra2ll)
         \<and> ra2ll matrix_ra2ll (replicate (length grid) (Some 1))
           = Inr (map (\<lambda>c. if c = noindex then None else Some 1) matrix_ra2ll)"
proof
  show "ra2ll matrix_ra2ll grid
           = Inr (map (\<lambda>c. if c = noindex then None else grid ! unat c) matrix_ra2ll)"
    using assms by (rule ra2ll_valid)
next
  let ?ones = "replicate (length grid) (Some (1 :: rat))"
  have v: "\<forall>c \<in> set matrix_ra2ll. c = noindex \<or> unat c < length ?ones"
    using assms(1) by simp
  have n: "?ones \<noteq> []" using assms(2) by simp
  have "ra2ll matrix_ra2ll ?ones
      = Inr (map (\<lambda>c. if c = noindex then None else ?ones ! unat c) matrix_ra2ll)"
    using v n by (rule ra2ll_valid)
  also have "map (\<lambda>c. if c = noindex then None else ?ones ! unat c) matrix_ra2ll
      = map (\<lambda>c. if c = noindex then None else Some 1) matrix_ra2ll"
    using assms(1) by (intro map_cong) auto
  finally show "ra2ll matrix_ra2ll ?ones
      = Inr (map (\<lambda>c. if c = noindex then None else Some 1) matrix_ra2ll)" .
qed

theorem ra2ll_gathers_witness:
  "list_all (\<lambda>c. c = noindex \<or> unat c < length example_layer) [0, 3, noindex, 12, noindex, 15]
   \<and> example_layer \<noteq> []
   \<and> ra2ll [0, 3, noindex, 12, noindex, 15] example_layer
       = Inr [Some 10, Some 13, None, Some 40, None, Some 43]
   \<and> ra2ll [0, 3, noindex, 12, noindex, 15] (replicate (length example_layer) (Some 1))
       = Inr [Some 1, Some 1, None, Some 1, None, Some 1]"
proof -
  have v: "\<forall>c \<in> set [0, 3, noindex, 12, noindex, 15]. c = noindex \<or> unat c < length example_layer"
    by (simp add: example_layer_def noindex_def)
  have n: "example_layer \<noteq> []" by (simp add: example_layer_def)
  from ra2ll_gathers [OF v n] show ?thesis
    using v n by (simp add: example_layer_def noindex_def)
qed

text \<open>
  C10. When the geographic-to-radar matrix holds the sentinel in some cell and the
  input grid has fewer than \<open>noindex + 1\<close> values, the gather of \<open>ll2ra\<close> reads
  outside the flattened grid and raises \<open>IndexError\<close>: no missing-value marker is
  produced.
\<close>

theorem ll2ra_sentinel_raises:
  assumes "noindex \<in> set matrix_ll2ra" and "length grid < unat noindex + 1"
  shows "ll2ra matrix_ll2ra grid = Inl IndexError"
proof -
  have "unat noindex \<in> set (map unat matrix_ll2ra)" using assms(1) by simp
  moreover have "length grid \<le> unat noindex" using assms(2) by simp
  ultimately show ?thesis unfolding ll2ra_def by (rule fancy_index_out_of_bounds)
qed

text \<open>
  The degenerate chunk of the example gives such a matrix: \<open>calc_intf_ll2ra_matrix\<close>
  fills it with the sentinel, and the gather through it raises.
\<close>

lemma gap_calc:
  "calc_intf_ll2ra_matrix example_extents example_blocks gap_azi gap_rng
     = Inr \<lparr>shape = (2, 2), flat = [noindex, noindex, noindex, noindex]\<rparr>"
  by code_simp

theorem ll2ra_sentinel_raises_witness:
  "calc_intf_ll2ra_matrix example_extents example_blocks gap_azi gap_rng
     = Inr \<lparr>shape = (2, 2), flat = [noindex, noindex, noindex, noindex]\<rparr>
   \<and> noindex \<in> set [noindex, noindex, noindex, noindex]
   \<and> length example_layer < unat noindex + 1
   \<and> ll2ra [noindex, noindex, noindex, noindex] example_layer = Inl IndexError"
proof -
  have m: "noindex \<in> set [noindex, noindex, noindex, noindex]" by simp
  have l: "length example_layer < unat noindex + 1"
    by (simp add: example_layer_def noindex_def)
  from ll2ra_sentinel_raises [OF m l] show ?thesis using gap_calc m l by simp
qed

section \<open>Properties of the geographic-to-radar matrix\<close>

lemma first_index_less: "\<exists>v \<in> set vs. P v \<Longrightarrow> first_index P vs < length vs"
  by (induction vs) auto

lemma first_index_holds: "\<exists>v \<in> set vs. P v \<Longrightarrow> P (vs ! first_index P vs)"
  by (induction vs) auto

lemma query_nearest:
  assumes "tree \<noteq> []"
  shows "query tree t < length tree
         \<and> (\<forall>i < length tree. sqdist t (tree ! query tree t) \<le> sqdist t (tree ! i))"
proof -
  let ?ds = "map (sqdist t) tree"
  from assms obtain d ds where ds: "?ds = d # ds" by (cases tree) auto
  let ?m = "fold min ds d"
  have m: "?m = Min (set ?ds)" unfolding ds by (simp only: Min.set_eq_fold)
  have "?m \<in> set ?ds" unfolding m by (rule Min_in) (use assms in auto)
  then have ex: "\<exists>v \<in> set ?ds. v = ?m" by blast
  have q: "query tree t = first_index (\<lambda>v. v = ?m) ?ds"
    by (simp add: query_def ds)
  have lt: "query tree t < length tree"
    using first_index_less [OF ex] q by simp
  have "?ds ! query tree t = ?m" using first_index_holds [OF ex] q by simp
  then have eq: "sqdist t (tree ! query tree t) = ?m" using lt by simp
  have "\<forall>i < length tree. ?m \<le> sqdist t (tree ! i)"
    unfolding m by (auto intro!: Min_le)
  then show ?thesis using lt eq by simp
qed

lemma cKDTree_Inr:
  "cKDTree ps = Inr tree \<Longrightarrow>
   length tree = length ps \<and> (\<forall>i < length ps. finite_point (ps ! i) = Some (tree ! i))"
proof (induction ps arbitrary: tree)
  case Nil
  then show ?case by simp
next
  case (Cons p ps)
  then obtain yx t where p: "finite_point p = Some yx" and t: "cKDTree ps = Inr t"
    and tree: "tree = yx # t"
    by (auto split: option.splits sum.splits)
  from Cons.IH [OF t] show ?case using p tree by (auto simp: nth_Cons split: nat.splits)
qed

lemma euclid_mono: "sqdist p q \<le> sqdist p r \<Longrightarrow> euclid p q \<le> euclid p r"
  by (simp add: euclid_def of_rat_less_eq)

lemma block_selected_overlaps:
  "block_selected ymin ymax xmin xmax b
     = extent_overlaps (expand_extent 1 b) ymin ymax xmin xmax"
  by (auto simp: block_selected_def extent_overlaps_def expand_extent_def float_ge_def float_le_def
      split: option.splits)

lemma gather_blocks_length:
  "gather_blocks tb bs = Inr blocks \<Longrightarrow> length blocks = length bs"
  by (induction bs arbitrary: blocks) (auto split: option.splits sum.splits)

text \<open>
  The two coordinate blocks that \<open>matrix_ra\<close> passes to the chunk function have the
  same shape and one value per cell.
\<close>

lemma coordinate_blocks_agree:
  "shape (azis_block yc xc) = shape (rngs_block yc xc)
   \<and> length (flat (azis_block yc xc)) = length yc * length xc
   \<and> length (flat (rngs_block yc xc)) = length yc * length xc"
  by (induction yc) (simp_all add: azis_block_def rngs_block_def)

lemma fancy_index_Inr:
  "fancy_index vals index = Inr out \<Longrightarrow>
   out = map ((!) vals) index \<and> (\<forall>i \<in> set index. i < length vals)"
  by (auto simp: fancy_index_def list_all_iff split: if_splits)

text \<open>
  C4. When the chunk has bounds (it is not empty) and the selection of lines 155 to
  157 keeps no row of the extents, \<open>calc_intf_ll2ra_matrix\<close> returns an array of the
  chunk's shape that holds the sentinel in every cell; it does not raise.
\<close>

theorem calc_degenerate_chunk:
  assumes "shape azi_c = shape rng_c"
    and "coord_min (flat azi_c) = Inr ymin" and "coord_max (flat azi_c) = Inr ymax"
    and "coord_min (flat rng_c) = Inr xmin" and "coord_max (flat rng_c) = Inr xmax"
    and "filter (block_selected ymin ymax xmin xmax) trans_blocks_extents = []"
  shows "calc_intf_ll2ra_matrix trans_blocks_extents tb azi_c rng_c
           = Inr \<lparr>shape = shape azi_c, flat = replicate (size_of azi_c) noindex\<rparr>"
  using assms by (simp add: calc_intf_ll2ra_matrix_def)

theorem calc_degenerate_chunk_witness:
  "shape gap_azi = shape gap_rng
   \<and> coord_min (flat gap_azi) = Inr 20 \<and> coord_max (flat gap_azi) = Inr 21
   \<and> coord_min (flat gap_rng) = Inr 0 \<and> coord_max (flat gap_rng) = Inr 1
   \<and> filter (block_selected 20 21 0 1) example_extents = []
   \<and> calc_intf_ll2ra_matrix example_extents example_blocks gap_azi gap_rng
       = Inr \<lparr>shape = (2, 2), flat = [noindex, noindex, noindex, noindex]\<rparr>"
proof -
  have s: "shape gap_azi = shape gap_rng" by code_simp
  have b: "coord_min (flat gap_azi) = Inr 20" "coord_max (flat gap_azi) = Inr 21"
    "coord_min (flat gap_rng) = Inr 0" "coord_max (flat gap_rng) = Inr 1"
    by code_simp+
  have f: "filter (block_selected 20 21 0 1) example_extents = []" by code_simp
  have "shape gap_azi = (2, 2)" "replicate (size_of gap_azi) noindex
      = [noindex, noindex, noindex, noindex]"
    by code_simp+
  with calc_degenerate_chunk [OF s b f, of example_blocks] show ?thesis
    using s b f by simp
qed

text \<open>
  C1. Take a chunk whose candidate blocks are not empty, the candidates being the
  rows of the extents whose extent, widened by 1 on every side, overlaps the
  bounding box of the chunk. When \<open>calc_intf_ll2ra_matrix\<close> returns, the points it
  indexed are those of the candidate blocks, all with finite coordinates, and the
  value of every cell \<open>k\<close> is the \<open>idx\<close> of one of these points that is nearest to
  the cell in Euclidean distance: no gathered point is nearer.
\<close>

theorem calc_nearest:
  assumes calc: "calc_intf_ll2ra_matrix trans_blocks_extents tb azi_c rng_c = Inr out"
    and bounds: "coord_min (flat azi_c) = Inr ymin" "coord_max (flat azi_c) = Inr ymax"
      "coord_min (flat rng_c) = Inr xmin" "coord_max (flat rng_c) = Inr xmax"
    and cand: "candidates
        = filter (\<lambda>b. extent_overlaps (expand_extent 1 b) ymin ymax xmin xmax) trans_blocks_extents"
    and nondeg: "candidates \<noteq> []"
    and k: "k < length (flat azi_c)" and len: "length (flat rng_c) = length (flat azi_c)"
  shows "\<exists>blocks tree j.
           gather_blocks tb candidates = Inr blocks \<and> cKDTree (concat blocks) = Inr tree
           \<and> j < length (concat blocks)
           \<and> finite_point (concat blocks ! j) = Some (tree ! j)
           \<and> flat out ! k = idx (concat blocks ! j)
           \<and> (\<forall>i < length (concat blocks).
                 euclid (flat azi_c ! k, flat rng_c ! k) (tree ! j)
                   \<le> euclid (flat azi_c ! k, flat rng_c ! k) (tree ! i))"
proof -
  have cand': "filter (block_selected ymin ymax xmin xmax) trans_blocks_extents = candidates"
    unfolding cand by (rule filter_cong) (simp_all add: block_selected_overlaps)
  from calc bounds cand' obtain blocks where g: "gather_blocks tb candidates = Inr blocks"
    by (auto simp: calc_intf_ll2ra_matrix_def split: if_splits sum.splits)
  have "length blocks = length candidates" using g by (rule gather_blocks_length)
  then have nz: "length blocks \<noteq> 0" using nondeg by simp
  from calc bounds cand' g nz obtain tree where t: "cKDTree (concat blocks) = Inr tree"
    by (auto simp: calc_intf_ll2ra_matrix_def split: if_splits sum.splits)
  let ?targets = "zip (flat azi_c) (flat rng_c)"
  from calc bounds cand' g nz t obtain matrix where
    f: "fancy_index (map idx (concat blocks)) (map (query tree) ?targets) = Inr matrix"
    and out: "out = \<lparr>shape = shape azi_c, flat = matrix\<rparr>"
    by (auto simp: calc_intf_ll2ra_matrix_def split: if_splits sum.splits)
  let ?t = "(flat azi_c ! k, flat rng_c ! k)"
  let ?j = "query tree ?t"
  have tk: "?targets ! k = ?t" and kt: "k < length ?targets" using k len by simp_all
  from fancy_index_Inr [OF f]
  have m: "matrix = map ((!) (map idx (concat blocks))) (map (query tree) ?targets)"
    and inb: "\<forall>i \<in> set (map (query tree) ?targets). i < length (map idx (concat blocks))"
    by simp_all
  have "?t \<in> set ?targets" using nth_mem [OF kt] tk by simp
  then have j: "?j < length (concat blocks)" using inb by simp
  from cKDTree_Inr [OF t] have lt: "length tree = length (concat blocks)"
    and fp: "\<forall>i < length (concat blocks). finite_point (concat blocks ! i) = Some (tree ! i)"
    by simp_all
  have "0 < length tree" using j lt by linarith
  then have "tree \<noteq> []" by blast
  from query_nearest [OF this, of ?t]
  have near: "\<forall>i < length tree. sqdist ?t (tree ! ?j) \<le> sqdist ?t (tree ! i)" by simp
  have v: "flat out ! k = idx (concat blocks ! ?j)"
    using out m kt tk j by simp
  have "\<forall>i < length (concat blocks). euclid ?t (tree ! ?j) \<le> euclid ?t (tree ! i)"
    using near lt by (auto intro: euclid_mono)
  with g t j fp v show ?thesis by blast
qed

lemma example_calc:
  "calc_intf_ll2ra_matrix example_extents example_blocks example_azi example_rng
     = Inr \<lparr>shape = (2, 2), flat = [0, 0, 0, 2]\<rparr>"
  by code_simp

theorem calc_nearest_witness:
  "calc_intf_ll2ra_matrix example_extents example_blocks example_azi example_rng
     = Inr \<lparr>shape = (2, 2), flat = [0, 0, 0, 2]\<rparr>
   \<and> coord_min (flat example_azi) = Inr 0 \<and> coord_max (flat example_azi) = Inr 1
   \<and> coord_min (flat example_rng) = Inr 0 \<and> coord_max (flat example_rng) = Inr 1
   \<and> [hd example_extents]
       = filter (\<lambda>b. extent_overlaps (expand_extent 1 b) 0 1 0 1) example_extents
   \<and> [hd example_extents] \<noteq> []
   \<and> 3 < length (flat example_azi) \<and> length (flat example_rng) = length (flat example_azi)
   \<and> (\<exists>blocks tree j.
         gather_blocks example_blocks [hd example_extents] = Inr blocks
         \<and> cKDTree (concat blocks) = Inr tree
         \<and> j < length (concat blocks)
         \<and> finite_point (concat blocks ! j) = Some (tree ! j)
         \<and> flat \<lparr>shape = (2, 2), flat = [0, 0, 0, 2 :: u32]\<rparr> ! 3 = idx (concat blocks ! j)
         \<and> (\<forall>i < length (concat blocks).
               euclid (flat example_azi ! 3, flat example_rng ! 3) (tree ! j)
                 \<le> euclid (flat example_azi ! 3, flat example_rng ! 3) (tree ! i)))"
proof -
  have b: "coord_min (flat example_azi) = Inr 0" "coord_max (flat example_azi) = Inr 1"
    "coord_min (flat example_rng) = Inr 0" "coord_max (flat example_rng) = Inr 1"
    by code_simp+
  have c: "[hd example_extents]
       = filter (\<lambda>b. extent_overlaps (expand_extent 1 b) 0 1 0 1) example_extents"
    by code_simp
  have n: "[hd example_extents] \<noteq> []" by simp
  have k: "3 < length (flat example_azi)" by code_simp
  have l: "length (flat example_rng) = length (flat example_azi)" by code_simp
  from calc_nearest [OF example_calc b c n k l] show ?thesis
    using example_calc b c n k l by blast
qed


subsection \<open>Chunk alignment\<close>

lemma matrix_ra_Inr:
  "matrix_ra chunksize trans_blocks_extents tb g = Inr m \<Longrightarrow>
   grid_chunks g = Some (lazy_chunks m)
   \<and> lazy_chunks m = (regular_chunks chunksize (length (ys g)),
                       regular_chunks chunksize (length (xs g)))"
  by (auto simp: matrix_ra_def Let_def split: if_splits)

lemma matrix_ra_mismatch:
  assumes "grid_chunks g \<noteq> Some (regular_chunks chunksize (length (ys g)),
                                     regular_chunks chunksize (length (xs g)))"
  shows "\<exists>msg. matrix_ra chunksize trans_blocks_extents tb g = Inl (AssertionError msg)"
  using assms by (simp add: matrix_ra_def Let_def)

text \<open>
  C5. Whenever \<open>intf_ll2ra_matrix\<close> returns, interactive or not, the chunk
  partition of the matrix it built is the chunk partition of the radar grid. When
  the partition that the builder gives the matrix (chunks of \<open>self.chunksize\<close>)
  is not the grid's, the call ends in a failed assertion and leaves the storage as
  it was: nothing is re-chunked silently.
\<close>

theorem intf_ll2ra_matrix_chunks:
  "(\<forall>r. fst (intf_ll2ra_matrix chunksize filename trans_blocks_extents tb g interactive st) = Inr r
        \<longrightarrow> grid_chunks g = Some (lazy_chunks (built_matrix r)))
   \<and> (grid_chunks g \<noteq> Some (regular_chunks chunksize (length (ys g)),
                                regular_chunks chunksize (length (xs g)))
        \<longrightarrow> (\<exists>msg. fst (intf_ll2ra_matrix chunksize filename trans_blocks_extents tb g interactive st)
                      = Inl (AssertionError msg))
            \<and> snd (intf_ll2ra_matrix chunksize filename trans_blocks_extents tb g interactive st) = st)"
proof (intro conjI allI impI)
  fix r
  assume "fst (intf_ll2ra_matrix chunksize filename trans_blocks_extents tb g interactive st) = Inr r"
  then obtain m where m: "matrix_ra chunksize trans_blocks_extents tb g = Inr m"
    and r: "built_matrix r = m"
    by (auto simp: intf_ll2ra_matrix_def return_or_save_def Let_def split: sum.splits if_splits)
  from matrix_ra_Inr [OF m] show "grid_chunks g = Some (lazy_chunks (built_matrix r))"
    by (simp add: r)
next
  assume ne: "grid_chunks g \<noteq> Some (regular_chunks chunksize (length (ys g)),
                                      regular_chunks chunksize (length (xs g)))"
  from matrix_ra_mismatch [OF ne] obtain msg where
    e: "matrix_ra chunksize trans_blocks_extents tb g = Inl (AssertionError msg)" by blast
  then show "\<exists>msg. fst (intf_ll2ra_matrix chunksize filename trans_blocks_extents tb g interactive st)
                      = Inl (AssertionError msg)"
    by (simp add: intf_ll2ra_matrix_def)
  from e show "snd (intf_ll2ra_matrix chunksize filename trans_blocks_extents tb g interactive st) = st"
    by (simp add: intf_ll2ra_matrix_def)
qed

lemma example_matrix_ra:
  "matrix_ra 2 example_extents example_blocks example_grid
     = Inr \<lparr>lazy_chunks = ([2, 2], [2, 2]),
            lazy_blocks =
              [Inr \<lparr>shape = (2, 2), flat = [0, 0, 0, 2]\<rparr>,
               Inr \<lparr>shape = (2, 2), flat = [1, 1, 2, 1]\<rparr>,
               Inr \<lparr>shape = (2, 2), flat = [2, 2, 2, 2]\<rparr>,
               Inr \<lparr>shape = (2, 2), flat = [2, 1, 2, 2]\<rparr>]\<rparr>"
  by code_simp

theorem intf_ll2ra_matrix_chunks_witness:
  "fst (intf_ll2ra_matrix 2 ''intf_ll2ra.grd'' example_extents example_blocks example_grid
          True empty_storage)
     = Inr (Lazy \<lparr>lazy_chunks = ([2, 2], [2, 2]),
                   lazy_blocks =
                     [Inr \<lparr>shape = (2, 2), flat = [0, 0, 0, 2]\<rparr>,
                      Inr \<lparr>shape = (2, 2), flat = [1, 1, 2, 1]\<rparr>,
                      Inr \<lparr>shape = (2, 2), flat = [2, 2, 2, 2]\<rparr>,
                      Inr \<lparr>shape = (2, 2), flat = [2, 1, 2, 2]\<rparr>]\<rparr>)
   \<and> grid_chunks example_grid = Some ([2, 2], [2, 2])
   \<and> grid_chunks one_chunk_grid
       \<noteq> Some (regular_chunks 2 (length (ys one_chunk_grid)),
                 regular_chunks 2 (length (xs one_chunk_grid)))
   \<and> fst (intf_ll2ra_matrix 2 ''intf_ll2ra.grd'' example_extents example_blocks one_chunk_grid
            False empty_storage)
       = Inl (AssertionError
               ''Inverse geocoding matrix chunks are not equal to interferogram chunks'')
   \<and> snd (intf_ll2ra_matrix 2 ''intf_ll2ra.grd'' example_extents example_blocks one_chunk_grid
            False empty_storage) = empty_storage"
proof -
  let ?lazy = "\<lparr>lazy_chunks = ([2, 2], [2 :: nat, 2]),
                lazy_blocks =
                  [Inr \<lparr>shape = (2, 2), flat = [0, 0, 0, 2 :: u32]\<rparr>,
                   Inr \<lparr>shape = (2, 2), flat = [1, 1, 2, 1]\<rparr>,
                   Inr \<lparr>shape = (2, 2), flat = [2, 2, 2, 2]\<rparr>,
                   Inr \<lparr>shape = (2, 2), flat = [2, 1, 2, 2]\<rparr>]\<rparr>"
  have ok: "fst (intf_ll2ra_matrix 2 ''intf_ll2ra.grd'' example_extents example_blocks
                  example_grid True empty_storage) = Inr (Lazy ?lazy)"
    by (simp add: intf_ll2ra_matrix_def example_matrix_ra return_or_save_def)
  have ne: "grid_chunks one_chunk_grid
       \<noteq> Some (regular_chunks 2 (length (ys one_chunk_grid)),
                 regular_chunks 2 (length (xs one_chunk_grid)))"
    by code_simp
  have bad: "fst (intf_ll2ra_matrix 2 ''intf_ll2ra.grd'' example_extents example_blocks
                   one_chunk_grid False empty_storage)
       = Inl (AssertionError
               ''Inverse geocoding matrix chunks are not equal to interferogram chunks'')"
    by code_simp
  have c1: "grid_chunks example_grid = Some (lazy_chunks (built_matrix (Lazy ?lazy)))"
    using intf_ll2ra_matrix_chunks
      [of 2 "''intf_ll2ra.grd''" example_extents example_blocks example_grid True empty_storage]
      ok by blast
  have c2: "snd (intf_ll2ra_matrix 2 ''intf_ll2ra.grd'' example_extents example_blocks
                   one_chunk_grid False empty_storage) = empty_storage"
    using intf_ll2ra_matrix_chunks
      [of 2 "''intf_ll2ra.grd''" example_extents example_blocks one_chunk_grid False empty_storage]
      ne by blast
  show ?thesis using ok ne bad c1 c2 by simp
qed

subsection \<open>Interactive mode and storage\<close>

text \<open>
  C8. With \<open>interactive\<close> set, each builder leaves the storage as it was (no
  artifact removed, none written) and returns the matrix it built, not
  materialized, or the error of building it. Without \<open>interactive\<close>, a builder that
  built its matrix removes the artifact of that name if there is one and then
  writes; these are the only events.
\<close>

theorem interactive_skips_storage:
  "intf_ra2ll_matrix filename g td True st = (map_sum id Lazy (matrix_ll g td), st)
   \<and> intf_ll2ra_matrix chunksize filename trans_blocks_extents tb g True st
       = (map_sum id Lazy (matrix_ra chunksize trans_blocks_extents tb g), st)
   \<and> events (snd (intf_ra2ll_matrix filename g td False st))
       = events st @
         (case matrix_ll g td of
            Inl e \<Rightarrow> []
          | Inr m \<Rightarrow> (if filename \<in> set (files st) then [Remove filename] else [])
                      @ [ToNetcdf filename])
   \<and> events (snd (intf_ll2ra_matrix chunksize filename trans_blocks_extents tb g False st))
       = events st @
         (case matrix_ra chunksize trans_blocks_extents tb g of
            Inl e \<Rightarrow> []
          | Inr m \<Rightarrow> (if filename \<in> set (files st) then [Remove filename] else [])
                      @ [ToNetcdf filename])"
  by (simp add: intf_ra2ll_matrix_def intf_ll2ra_matrix_def return_or_save_def
      os_remove_def to_netcdf_def split: sum.splits)

subsection \<open>The helper check\<close>

text \<open>
  C6. The helper check never lets a grid through unchanged. On a grid without the
  first expected axis the check reads the unbound name \<open>grid\<close> and raises
  \<open>NameError\<close>; on a grid with the first expected axis and without the second the
  check is false and the function goes on to resample.
\<close>

theorem helper_check_missing_axis:
  "intf_ra2ll_check [''lat'', ''lon''] = Inl (NameError ''grid'')
   \<and> intf_ll2ra_check [''y'', ''x''] = Inl (NameError ''grid'')
   \<and> intf_ra2ll_check [''y''] = Inr False
   \<and> intf_ll2ra_check [''lat''] = Inr False"
  by (simp add: intf_ra2ll_check_def intf_ll2ra_check_def helper_check_def)

subsection \<open>The target grid\<close>

lemma intf_grid_of_Inr:
  "intf_grid_of stack = Inr fp \<Longrightarrow>
   \<exists>layer rest. stack = layer # rest
     \<and> fp = map (\<lambda>k. astype_bool (nanmin (cell_over_pairs stack k))) [0..<length layer]"
  by (auto simp: intf_grid_of_def split: list.splits)

text \<open>
  C9, as amended. A cell of the target grid is the truth value of the least value
  of the pairs at that cell, missing values skipped: it is false when that least
  value is zero and true otherwise, also where every pair is missing.
\<close>

theorem intf_grid_of_cell:
  assumes "intf_grid_of stack = Inr fp" and "k < length fp"
  shows "fp ! k \<longleftrightarrow> nanmin (cell_over_pairs stack k) \<noteq> Some 0"
proof -
  from intf_grid_of_Inr [OF assms(1)] obtain layer :: "float list" where
    fp: "fp = map (\<lambda>k. astype_bool (nanmin (cell_over_pairs stack k))) [0..<length layer]"
    by blast
  then have "fp ! k = astype_bool (nanmin (cell_over_pairs stack k))"
    using assms(2) by simp
  then show ?thesis by (simp add: astype_bool_def split: option.splits)
qed

lemma example_intf_grid: "intf_grid_of example_stack = Inr [True, False, True]"
  by code_simp

theorem intf_grid_of_cell_witness:
  "intf_grid_of example_stack = Inr [True, False, True]
   \<and> 1 < length [True, False, True]
   \<and> ([True, False, True] ! 1 \<longleftrightarrow> nanmin (cell_over_pairs example_stack 1) \<noteq> Some 0)"
proof -
  have k: "1 < length [True, False, True]" by simp
  from intf_grid_of_cell [OF example_intf_grid k] show ?thesis
    using example_intf_grid by simp
qed

text \<open>
  The "any pair present" reading fails both ways: the first cell of the example
  stack has no pair present and the grid is true there; the second cell has both
  pairs present and the grid is false there.
\<close>

theorem intf_grid_of_any_counterexample:
  "intf_grid_of example_stack = Inr [True, False, True]
   \<and> \<not> any_pair_present example_stack 0
   \<and> any_pair_present example_stack 1"
proof -
  have "\<not> any_pair_present example_stack 0" "any_pair_present example_stack 1"
    by code_simp+
  then show ?thesis using example_intf_grid by simp
qed

end
